theory Spec2Isabelle
  imports Main "HOL-Library.Word"
begin

unbundle bit_operations_syntax

section \<open>Data model of memory\_region.cc\<close>

text \<open>
  Pointers and \<open>size_t\<close> values are 64-bit words, \<open>ssize_t\<close> and \<open>off_type\<close> are the
  same words read with \<open>sint\<close>. Memory is a function from addresses to \<open>char\<close>.
  A \<open>std::shared_ptr<void>\<close> ownership handle is the pointer it owns together with its
  release action: \<open>free\<close> for a heap block, \<open>munmap\<close> and \<open>close\<close> for a mapping.
\<close>

type_synonym addr = "64 word"
type_synonym size_t = "64 word"
type_synonym ssize_t = "64 word"
type_synonym memory = "addr \<Rightarrow> char"
type_synonym PathElement = string
type_synonym Path = "PathElement list"

datatype handle =
    NullHandle
  | HeapHandle addr
  | MmapHandle addr size_t int

text \<open>
  Every \<open>throw\<close> of the file is a value: \<open>AnnotatedException\<close> carries the status
  code and the message it is constructed with, \<open>AssertionFailure\<close> is what the
  \<open>ExcAssert\<close> macros throw. Calling a method through a null \<open>shared_ptr\<close> has no
  defined behaviour in C++; the model makes it the value \<open>NullPointerDereference\<close>.
\<close>

datatype error =
    AnnotatedException int string
  | AssertionFailure string
  | Exception string
  | NullPointerDereference

text \<open>
  The calls a function makes to the operating system and the C library, in order.
  Diagnostic output on \<open>cerr\<close> is not modelled.
\<close>

datatype call =
    call_open string
  | call_fstat int
  | call_close int
  | call_mmap size_t int size_t
  | call_munmap addr size_t
  | call_posix_memalign size_t size_t

record FrozenMemoryRegion =
  fmr_data :: addr
  fmr_length :: size_t
  fmr_handle :: handle

record MutableMemoryRegion =
  mmr_handle :: handle
  mmr_data :: addr
  mmr_length :: size_t
  mmr_owner :: nat

text \<open>The bytes a region views: \<open>fmr_length\<close> bytes of memory from \<open>fmr_data\<close> on.\<close>

definition region_bytes :: "memory \<Rightarrow> FrozenMemoryRegion \<Rightarrow> char list" where
  "region_bytes mem r = map (\<lambda>i. mem (fmr_data r + of_nat i)) [0..<unat (fmr_length r)]"

subsection \<open>FrozenMemoryRegion::range\<close>

text \<open>
  The two \<open>ExcAssert\<close> macros throw when their comparison (on unsigned \<open>size_t\<close>) fails;
  otherwise a new region is constructed from the same handle. The method is \<open>const\<close>:
  it writes neither the region nor memory, so the model is a function of the region.
\<close>

definition FrozenMemoryRegion_range ::
  "FrozenMemoryRegion \<Rightarrow> size_t \<Rightarrow> size_t \<Rightarrow> error + FrozenMemoryRegion" where
  "FrozenMemoryRegion_range this start end' =
     (if \<not> (end' \<ge> start) then Inl (AssertionFailure ''end >= start'')
      else if \<not> (end' \<le> fmr_length this) then Inl (AssertionFailure ''end <= length()'')
      else Inr \<lparr>fmr_data = fmr_data this + start, fmr_length = end' - start, fmr_handle = fmr_handle this\<rparr>)"


subsection \<open>mapFile\<close>

text \<open>
  \<open>Url\<close> is declared outside this file; the function reads its scheme, its path and
  its printed form. The system calls are parameters: \<open>os_open\<close> gives the descriptor
  (\<open>-1\<close> on failure) and the text of \<open>strerror(errno)\<close> after the call, \<open>os_fstat\<close>
  the result, \<open>st_size\<close> and the error text, \<open>os_mmap\<close> the address (\<open>MAP_FAILED\<close> is
  \<open>(void *) -1\<close>) and the error text. \<open>page_size\<close> comes from \<open>mldb/arch/vm.h\<close> and is
  a parameter as well, of type \<open>size_t\<close>; it is a positive power of two there.
\<close>

record Url =
  scheme :: string
  path :: string
  toUtf8String :: string

record os =
  os_open :: "string \<Rightarrow> int \<times> string"
  os_fstat :: "int \<Rightarrow> int \<times> ssize_t \<times> string"
  os_mmap :: "size_t \<Rightarrow> int \<Rightarrow> size_t \<Rightarrow> addr \<times> string"

definition MAP_FAILED :: addr where
  "MAP_FAILED = - 1"

definition mapOffset :: "size_t \<Rightarrow> size_t \<Rightarrow> size_t" where
  "mapOffset page_size startOffset = startOffset AND NOT (page_size - 1)"

definition mapLength :: "size_t \<Rightarrow> size_t \<Rightarrow> ssize_t \<Rightarrow> size_t" where
  "mapLength page_size startOffset len =
     (len - mapOffset page_size startOffset + page_size - 1) AND NOT (page_size - 1)"

text \<open>
  The result is the list of calls made and either the exception thrown or the region
  returned. When \<open>mmap\<close> fails, the exception unwinds the \<open>shared_ptr\<close> holding its
  result, whose deleter calls \<open>munmap\<close> and \<open>close\<close>.
\<close>

definition mapFile ::
  "size_t \<Rightarrow> os \<Rightarrow> Url \<Rightarrow> size_t \<Rightarrow> ssize_t \<Rightarrow> call list \<times> (error + FrozenMemoryRegion)" where
  "mapFile page_size sys filename startOffset len =
     (if scheme filename \<noteq> ''file'' then
        ([], Inl (AnnotatedException 500 ''only file:// entities can be memory mapped (for now)''))
      else
        let (fd, open_err) = os_open sys (path filename) in
        if fd = - 1 then
          ([call_open (path filename)],
           Inl (AnnotatedException 400
                  (''Couldn't open mmap file '' @ toUtf8String filename @ '': '' @ open_err)))
        else
          case (if len = - 1 then
                  (let (res, st_size, stat_err) = os_fstat sys fd in
                   if res = - 1 then Inl stat_err else Inr ([call_fstat fd], st_size))
                else Inr ([], len)) of
            Inl stat_err \<Rightarrow>
              ([call_open (path filename), call_fstat fd, call_close fd],
               Inl (AnnotatedException 400
                      (''Couldn't stat mmap file '' @ toUtf8String filename @ '': '' @ stat_err)))
          | Inr (stat_calls, len1) \<Rightarrow>
              let mo = mapOffset page_size startOffset;
                  ml = mapLength page_size startOffset len1;
                  (addr, mmap_err) = os_mmap sys ml fd mo
              in
              if addr = MAP_FAILED then
                (call_open (path filename) # stat_calls
                   @ [call_mmap ml fd mo, call_munmap addr ml, call_close fd],
                 Inl (AnnotatedException 400 (''Failed to open memory map file: '' @ mmap_err)))
              else
                (call_open (path filename) # stat_calls @ [call_mmap ml fd mo],
                 Inr \<lparr>fmr_data = addr + startOffset mod page_size,
                      fmr_length = len1,
                      fmr_handle = MmapHandle addr ml fd\<rparr>))"

text \<open>The client-input class of status codes: 400 to 499.\<close>

definition is_client_error :: "error \<Rightarrow> bool" where
  "is_client_error e =
     (case e of AnnotatedException code msg \<Rightarrow> 400 \<le> code \<and> code < 500 | _ \<Rightarrow> False)"

subsection \<open>MemorySerializer\<close>

text \<open>
  \<open>posix_memalign\<close> and \<open>strerror\<close> are parameters. \<open>uint64_t\<close> and \<open>size_t\<close> are both
  64 bits wide, so the cast in the assertion is \<open>ucast\<close> at the same width. The
  exception's annotations (\<open>bytesRequired\<close>, \<open>alignment\<close>) are left out of the value.
\<close>

record libc =
  posix_memalign :: "size_t \<Rightarrow> size_t \<Rightarrow> int \<times> addr"
  strerror :: "int \<Rightarrow> string"

definition MemorySerializer_allocateWritable ::
  "nat \<Rightarrow> libc \<Rightarrow> 64 word \<Rightarrow> size_t \<Rightarrow> call list \<times> (error + MutableMemoryRegion)" where
  "MemorySerializer_allocateWritable this lib bytesRequired alignment =
     (if (ucast (ucast bytesRequired :: size_t) :: 64 word) \<noteq> bytesRequired then
        ([], Inl (AssertionFailure ''(size_t)bytesRequired == bytesRequired''))
      else
        let alignment1 = (if alignment < 8 then 8 else alignment);
            (res, mem) = posix_memalign lib alignment1 bytesRequired
        in
        if res \<noteq> 0 then
          ([call_posix_memalign alignment1 bytesRequired],
           Inl (AnnotatedException 400 (''Error allocating writable memory: '' @ strerror lib res)))
        else
          ([call_posix_memalign alignment1 bytesRequired],
           Inr \<lparr>mmr_handle = HeapHandle mem, mmr_data = mem,
                mmr_length = ucast bytesRequired, mmr_owner = this\<rparr>))"

definition MemorySerializer_freeze ::
  "MutableMemoryRegion \<Rightarrow> call list \<times> FrozenMemoryRegion" where
  "MemorySerializer_freeze region =
     ([], \<lparr>fmr_data = mmr_data region, fmr_length = mmr_length region,
           fmr_handle = mmr_handle region\<rparr>)"

subsection \<open>StructuredSerializer\<close>

text \<open>
  A value descriptor is used through its two operations: printing a value to text and
  parsing text, given a parsing context that holds the text and a label for error
  messages.
\<close>

record ParsingContext =
  ctx_text :: string
  ctx_filename :: string

record 'v ValueDescription =
  printJson :: "'v \<Rightarrow> string"
  parseJson :: "ParsingContext \<Rightarrow> error + 'v"

text \<open>
  A node of the write-side tree: the byte buffers allocated in it and its child
  entries by name, in order of creation.
\<close>

datatype StructuredSerializer =
  Serializer (regions: "string list") (entries: "(PathElement \<times> StructuredSerializer) list")

text \<open>
  Modelled from the spec: \<open>newEntry\<close> is pure virtual and no backend is part of this
  file. Following section 4.4, it materializes a fresh, empty child under the name.
  What happens to a name already registered is left to the backend there; this one
  keeps both children. The \<open>shared_ptr\<close> it returns is the position of the new child
  among the entries.
\<close>

definition newEntry :: "StructuredSerializer \<Rightarrow> PathElement \<Rightarrow> StructuredSerializer \<times> nat" where
  "newEntry this name =
     (Serializer (regions this) (entries this @ [(name, Serializer [] [])]),
      length (entries this))"

text \<open>
  Modelled from the spec: the entry's own \<open>allocateWritable\<close> (a new buffer of the
  given size, here zero-filled, identified by its index), the \<open>memcpy\<close> into that
  buffer, and the update of a parent's child in place, which is what writing through
  the \<open>shared_ptr\<close> returned by \<open>newEntry\<close> does. Freezing keeps the bytes (section 4.2).
\<close>

definition entry_allocateWritable :: "StructuredSerializer \<Rightarrow> nat \<Rightarrow> StructuredSerializer \<times> nat" where
  "entry_allocateWritable e n =
     (Serializer (regions e @ [replicate n (CHR 0x00)]) (entries e), length (regions e))"

definition entry_memcpy :: "StructuredSerializer \<Rightarrow> nat \<Rightarrow> string \<Rightarrow> nat \<Rightarrow> StructuredSerializer" where
  "entry_memcpy e i src n =
     Serializer ((regions e)[i := take n src @ drop n (regions e ! i)]) (entries e)"

definition withEntry ::
  "nat \<Rightarrow> (StructuredSerializer \<Rightarrow> StructuredSerializer) \<Rightarrow> StructuredSerializer \<Rightarrow> StructuredSerializer" where
  "withEntry i f this =
     Serializer (regions this)
       (if i < length (entries this)
        then (entries this)[i := (fst (entries this ! i), f (snd (entries this ! i)))]
        else entries this)"

fun entryAt :: "StructuredSerializer \<Rightarrow> Path \<Rightarrow> StructuredSerializer option" where
  "entryAt this [] = Some this"
| "entryAt this (n # p) =
     (case map_of (entries this) n of None \<Rightarrow> None | Some c \<Rightarrow> entryAt c p)"

text \<open>\<open>StructuredSerializer::newObject\<close>, as written: the entry is \<open>newEntry("md")\<close>.\<close>

definition StructuredSerializer_newObject ::
  "StructuredSerializer \<Rightarrow> PathElement \<Rightarrow> 'v \<Rightarrow> 'v ValueDescription \<Rightarrow> StructuredSerializer" where
  "StructuredSerializer_newObject this name val desc =
     (let printed = printJson desc val;
          (this1, entry) = newEntry this ''md''
      in withEntry entry
           (\<lambda>e. let (e1, serializeTo) = entry_allocateWritable e (length printed)
                 in entry_memcpy e1 serializeTo printed (length printed))
           this1)"

text \<open>
  The claim's location for the written bytes: a buffer of a child \<open>md\<close> of an entry
  called \<open>name\<close>.
\<close>

definition stored_under_name :: "StructuredSerializer \<Rightarrow> PathElement \<Rightarrow> string \<Rightarrow> bool" where
  "stored_under_name this name bytes =
     list_ex (\<lambda>(n, c). n = name
                \<and> list_ex (\<lambda>(m, d). m = ''md'' \<and> bytes \<in> set (regions d)) (entries c))
       (entries this)"

subsection \<open>StructuredReconstituter\<close>

text \<open>
  \<open>getRegion\<close> and \<open>getStructure\<close> are pure virtual: a node is the pair of its two
  implementations. \<open>getStructure\<close> returns a \<open>shared_ptr\<close>, which may be null (\<open>None\<close>).
\<close>

datatype StructuredReconstituter = Reconstituter
  (getRegion: "PathElement \<Rightarrow> error + FrozenMemoryRegion")
  (getStructure: "PathElement \<Rightarrow> error + StructuredReconstituter option")

fun getRegionRecursive :: "StructuredReconstituter \<Rightarrow> Path \<Rightarrow> error + FrozenMemoryRegion" where
  "getRegionRecursive this [] = Inl (AssertionFailure ''!name.empty()'')"
| "getRegionRecursive this [h] = getRegion this h"
| "getRegionRecursive this (h # t) =
     (case getStructure this h of
        Inl e \<Rightarrow> Inl e
      | Inr None \<Rightarrow> Inl NullPointerDereference
      | Inr (Some s) \<Rightarrow> getRegionRecursive s t)"

text \<open>
  The chain of calls of the specification: \<open>getStructure\<close> for each leading segment,
  then \<open>getRegion\<close> for the last one.
\<close>

fun getStructureChain :: "StructuredReconstituter \<Rightarrow> Path \<Rightarrow> error + StructuredReconstituter" where
  "getStructureChain this [] = Inr this"
| "getStructureChain this (h # t) =
     (case getStructure this h of
        Inl e \<Rightarrow> Inl e
      | Inr None \<Rightarrow> Inl NullPointerDereference
      | Inr (Some s) \<Rightarrow> getStructureChain s t)"

definition getRegionChain :: "StructuredReconstituter \<Rightarrow> Path \<Rightarrow> error + FrozenMemoryRegion" where
  "getRegionChain this name =
     (case getStructureChain this (butlast name) of
        Inl e \<Rightarrow> Inl e
      | Inr s \<Rightarrow> getRegion s (last name))"

text \<open>
  The loop of \<open>getStructureRecursive\<close>: \<open>result\<close> starts as a null \<open>shared_ptr\<close>,
  \<open>current\<close> as \<open>this\<close>; each element replaces both by the child.
\<close>

fun getStructureRecursive_loop ::
  "StructuredReconstituter option \<Rightarrow> StructuredReconstituter option \<Rightarrow> Path
   \<Rightarrow> error + StructuredReconstituter option" where
  "getStructureRecursive_loop result current [] = Inr result"
| "getStructureRecursive_loop result current (el # els) =
     (case current of
        None \<Rightarrow> Inl NullPointerDereference
      | Some c \<Rightarrow>
          (case getStructure c el of
             Inl e \<Rightarrow> Inl e
           | Inr result1 \<Rightarrow> getStructureRecursive_loop result1 result1 els))"

definition getStructureRecursive ::
  "StructuredReconstituter \<Rightarrow> Path \<Rightarrow> error + StructuredReconstituter option" where
  "getStructureRecursive this name = getStructureRecursive_loop None (Some this) name"

subsection \<open>ReconstituteStreamHandler\<close>

text \<open>
  The stream buffer: its own \<open>start\<close> and \<open>end\<close> pointers, the region it keeps alive,
  and the three get-area pointers of \<open>std::streambuf\<close>. \<open>gbump\<close> takes an \<open>int\<close>, so the
  64-bit offset is cut to 32 bits and sign-extended when added to the pointer.
\<close>

record ReconstituteStreamHandler =
  sh_start :: addr
  sh_end :: addr
  sh_region :: FrozenMemoryRegion
  eback :: addr
  gptr :: addr
  egptr :: addr

datatype seekdir = ios_beg | ios_cur | ios_end | ios_other

definition setg :: "addr \<Rightarrow> addr \<Rightarrow> addr \<Rightarrow> ReconstituteStreamHandler \<Rightarrow> ReconstituteStreamHandler" where
  "setg gbeg gnext gend h = h\<lparr>eback := gbeg, gptr := gnext, egptr := gend\<rparr>"

definition gbump :: "32 word \<Rightarrow> ReconstituteStreamHandler \<Rightarrow> ReconstituteStreamHandler" where
  "gbump n h = h\<lparr>gptr := gptr h + scast n\<rparr>"


definition seekoff ::
  "64 word \<Rightarrow> seekdir \<Rightarrow> ReconstituteStreamHandler \<Rightarrow> error + (64 word \<times> ReconstituteStreamHandler)" where
  "seekoff off dir h =
     (case dir of
        ios_cur \<Rightarrow> (let h1 = gbump (ucast off) h in Inr (gptr h1 - eback h1, h1))
      | ios_end \<Rightarrow> (let h1 = setg (sh_start h) (sh_end h + off) (sh_end h) h in Inr (gptr h1 - eback h1, h1))
      | ios_beg \<Rightarrow> (let h1 = setg (sh_start h) (sh_start h + off) (sh_end h) h in Inr (gptr h1 - eback h1, h1))
      | ios_other \<Rightarrow> Inl (Exception ''Streambuf invalid seakoff dir''))"

definition seekpos ::
  "64 word \<Rightarrow> ReconstituteStreamHandler \<Rightarrow> error + (64 word \<times> ReconstituteStreamHandler)" where
  "seekpos pos h = seekoff (pos - 0) ios_beg h"






subsection \<open>getObjectHelper\<close>

text \<open>
  The parsed object is written through \<open>obj\<close> in the source and returned here. The
  parsing context is built from the entry's bytes and the literal \<open>"getObjectHelper"\<close>.
\<close>

definition getObjectHelper ::
  "memory \<Rightarrow> StructuredReconstituter \<Rightarrow> PathElement \<Rightarrow> 'v ValueDescription \<Rightarrow> error + 'v" where
  "getObjectHelper mem this name desc =
     (case getRegion this name of
        Inl e \<Rightarrow> Inl e
      | Inr entry \<Rightarrow>
          parseJson desc \<lparr>ctx_text = region_bytes mem entry, ctx_filename = ''getObjectHelper''\<rparr>)"

section \<open>Example inputs\<close>

text \<open>
  Concrete environments and inputs on which the functions are evaluated: a system where
  every call succeeds on a file of 8192 bytes, one where \<open>fstat\<close> fails, a local file
  reference and a remote one.
\<close>

definition example_os :: os where
  "example_os = \<lparr>os_open = (\<lambda>p. (3, ''Success'')),
                  os_fstat = (\<lambda>fd. (0, 8192, ''Success'')),
                  os_mmap = (\<lambda>l fd off. (0x7f0000000000, ''Success''))\<rparr>"

definition example_os_nostat :: os where
  "example_os_nostat = \<lparr>os_open = (\<lambda>p. (3, ''Success'')),
                  os_fstat = (\<lambda>fd. (- 1, 0, ''Input/output error'')),
                  os_mmap = (\<lambda>l fd off. (0x7f0000000000, ''Success''))\<rparr>"

definition example_file :: Url where
  "example_file = \<lparr>scheme = ''file'', path = ''/tmp/f'', toUtf8String = ''file:///tmp/f''\<rparr>"

definition example_http :: Url where
  "example_http = \<lparr>scheme = ''http'', path = ''/f'', toUtf8String = ''http://host/f''\<rparr>"

text \<open>
  An allocator that succeeds, a region of four bytes and a memory holding the text
  \<open>{!!!\<close> there, a read-side tree with the nested entries \<open>a\<close>, \<open>b\<close>, \<open>c\<close>, a value
  descriptor whose parse error repeats the label of its parsing context, and an empty
  write-side node.
\<close>

definition example_libc :: libc where
  "example_libc = \<lparr>posix_memalign = (\<lambda>alignment size. (0, 0x10000)),
                    strerror = (\<lambda>e. ''Cannot allocate memory'')\<rparr>"

definition example_region :: FrozenMemoryRegion where
  "example_region = \<lparr>fmr_data = 0x1000, fmr_length = 4, fmr_handle = HeapHandle 0x1000\<rparr>"

definition example_memory :: memory where
  "example_memory a = (if a = 0x1000 then CHR ''{'' else CHR ''!'')"

definition no_entry :: "PathElement \<Rightarrow> error + 'a" where
  "no_entry name = Inl (Exception (''no entry '' @ name))"

definition example_node_b :: StructuredReconstituter where
  "example_node_b =
     Reconstituter (\<lambda>n. if n = ''c'' then Inr example_region else no_entry n) no_entry"

definition example_node_a :: StructuredReconstituter where
  "example_node_a =
     Reconstituter no_entry (\<lambda>n. if n = ''b'' then Inr (Some example_node_b) else no_entry n)"

definition example_root :: StructuredReconstituter where
  "example_root =
     Reconstituter no_entry (\<lambda>n. if n = ''a'' then Inr (Some example_node_a) else no_entry n)"

definition label_description :: "nat ValueDescription" where
  "label_description =
     \<lparr>printJson = (\<lambda>v. ''0''),
      parseJson = (\<lambda>ctx. if ctx_text ctx = ''0'' then Inr 0 else Inl (Exception (ctx_filename ctx)))\<rparr>"

definition empty_serializer :: StructuredSerializer where
  "empty_serializer = Serializer [] []"

section \<open>Properties\<close>

subsection \<open>FrozenMemoryRegion::range\<close>

lemma region_bytes_range:
  assumes se: "start \<le> end'" and el: "end' \<le> fmr_length r"
  shows "region_bytes mem \<lparr>fmr_data = fmr_data r + start, fmr_length = end' - start, fmr_handle = h\<rparr>
         = take (unat end' - unat start) (drop (unat start) (region_bytes mem r))"
proof -
  have s: "unat start \<le> unat end'" using se by (simp add: word_le_nat_alt)
  have e: "unat end' \<le> unat (fmr_length r)" using el by (simp add: word_le_nat_alt)
  have len: "unat (end' - start) = unat end' - unat start"
    using se by (simp add: unat_sub)
  show ?thesis
  proof (rule nth_equalityI)
    show "length (region_bytes mem \<lparr>fmr_data = fmr_data r + start, fmr_length = end' - start, fmr_handle = h\<rparr>)
          = length (take (unat end' - unat start) (drop (unat start) (region_bytes mem r)))"
      using s e by (simp add: region_bytes_def len)
  next
    fix i
    assume "i < length (region_bytes mem \<lparr>fmr_data = fmr_data r + start, fmr_length = end' - start, fmr_handle = h\<rparr>)"
    then have i: "i < unat end' - unat start" by (simp add: region_bytes_def len)
    then have "unat start + i < unat (fmr_length r)" using e by simp
    then show "region_bytes mem \<lparr>fmr_data = fmr_data r + start, fmr_length = end' - start, fmr_handle = h\<rparr> ! i
          = take (unat end' - unat start) (drop (unat start) (region_bytes mem r)) ! i"
      using i by (simp add: region_bytes_def len add.assoc)
  qed
qed

text \<open>
  C1. \<open>range(start, end)\<close> succeeds exactly when \<open>start \<le> end \<le> length\<close>. On success the
  result has length \<open>end - start\<close>, views the parent's bytes \<open>[start, end)\<close> in every
  memory, starts at the parent's pointer advanced by \<open>start\<close> and carries the parent's
  ownership handle; the parent region is the argument value, which the function does
  not change.
\<close>

theorem range_spec:
  "((\<exists>r'. FrozenMemoryRegion_range r start end' = Inr r') \<longleftrightarrow>
      (start \<le> end' \<and> end' \<le> fmr_length r))
   \<and> (\<forall>r'. FrozenMemoryRegion_range r start end' = Inr r' \<longrightarrow>
         fmr_length r' = end' - start
       \<and> unat (fmr_length r') = unat end' - unat start
       \<and> fmr_data r' = fmr_data r + start
       \<and> fmr_handle r' = fmr_handle r
       \<and> (\<forall>mem. region_bytes mem r'
             = take (unat end' - unat start) (drop (unat start) (region_bytes mem r))))"
proof (cases "start \<le> end' \<and> end' \<le> fmr_length r")
  case True
  then have se: "start \<le> end'" and el: "end' \<le> fmr_length r" by simp_all
  have res: "FrozenMemoryRegion_range r start end'
             = Inr \<lparr>fmr_data = fmr_data r + start, fmr_length = end' - start, fmr_handle = fmr_handle r\<rparr>"
    using se el by (simp add: FrozenMemoryRegion_range_def)
  have len: "unat (end' - start) = unat end' - unat start"
    using se by (simp add: unat_sub)
  show ?thesis
    using True res len region_bytes_range [OF se el] by simp
next
  case False
  then have "\<exists>e. FrozenMemoryRegion_range r start end' = Inl e"
    by (auto simp: FrozenMemoryRegion_range_def)
  then show ?thesis using False by auto
qed

theorem range_spec_witness:
  "FrozenMemoryRegion_range \<lparr>fmr_data = 0x1000, fmr_length = 8, fmr_handle = HeapHandle 0x1000\<rparr> 2 5
     = Inr \<lparr>fmr_data = 0x1002, fmr_length = 3, fmr_handle = HeapHandle 0x1000\<rparr>
   \<and> region_bytes (\<lambda>a. if a = 0x1003 then CHR ''x'' else CHR ''.'')
        \<lparr>fmr_data = 0x1002, fmr_length = 3, fmr_handle = HeapHandle 0x1000\<rparr> = ''.x.''
   \<and> take (unat (5 :: size_t) - unat (2 :: size_t)) (drop (unat (2 :: size_t))
        (region_bytes (\<lambda>a. if a = 0x1003 then CHR ''x'' else CHR ''.'')
           \<lparr>fmr_data = 0x1000, fmr_length = 8, fmr_handle = HeapHandle 0x1000\<rparr>)) = ''.x.''"
proof -
  have r: "FrozenMemoryRegion_range \<lparr>fmr_data = 0x1000, fmr_length = 8, fmr_handle = HeapHandle 0x1000\<rparr> 2 5
     = Inr \<lparr>fmr_data = 0x1002, fmr_length = 3, fmr_handle = HeapHandle 0x1000\<rparr>"
    by (simp add: FrozenMemoryRegion_range_def)
  have b: "region_bytes (\<lambda>a. if a = 0x1003 then CHR ''x'' else CHR ''.'')
        \<lparr>fmr_data = 0x1002, fmr_length = 3, fmr_handle = HeapHandle 0x1000\<rparr> = ''.x.''"
    by (simp add: region_bytes_def upt_rec)
  show ?thesis
    using r b range_spec [of "\<lparr>fmr_data = 0x1000, fmr_length = 8, fmr_handle = HeapHandle 0x1000\<rparr>" 2 5]
    by metis
qed

subsection \<open>mapFile\<close>

lemma mapFile_success_cases:
  assumes "mapFile ps sys f so len = (calls, Inr r)"
  shows "scheme f = ''file'' \<and> fst (os_open sys (path f)) \<noteq> - 1
       \<and> (len = - 1 \<longrightarrow> fst (os_fstat sys (fst (os_open sys (path f)))) \<noteq> - 1)
       \<and> r = \<lparr>fmr_data = fst (os_mmap sys
                              (mapLength ps so (if len = - 1 then fst (snd (os_fstat sys (fst (os_open sys (path f))))) else len))
                              (fst (os_open sys (path f))) (mapOffset ps so)) + so mod ps,
              fmr_length = (if len = - 1 then fst (snd (os_fstat sys (fst (os_open sys (path f))))) else len),
              fmr_handle = MmapHandle (fst (os_mmap sys
                              (mapLength ps so (if len = - 1 then fst (snd (os_fstat sys (fst (os_open sys (path f))))) else len))
                              (fst (os_open sys (path f))) (mapOffset ps so)))
                              (mapLength ps so (if len = - 1 then fst (snd (os_fstat sys (fst (os_open sys (path f))))) else len))
                              (fst (os_open sys (path f)))\<rparr>"
  using assms
  by (auto simp: mapFile_def Let_def split: if_splits prod.splits sum.splits)

text \<open>
  C4. Whenever \<open>mapFile\<close> returns a region, its handle owns the address \<open>mmap\<close> returned
  for the page-aligned offset, its data pointer is that address advanced by
  \<open>startOffset % page_size\<close>, and its length is the requested length, or \<open>st_size\<close> of
  \<open>fstat\<close> when the length is \<open>-1\<close>. When the length is \<open>-1\<close> and \<open>fstat\<close> fails, the call
  fails with the exception "Couldn't stat mmap file" carrying the system's error text.
\<close>

theorem mapFile_result:
  "(\<forall>calls r. mapFile ps sys f so len = (calls, Inr r) \<longrightarrow>
      (\<exists>base ml fd. fmr_handle r = MmapHandle base ml fd
          \<and> base = fst (os_mmap sys ml fd (mapOffset ps so))
          \<and> fmr_data r = base + so mod ps)
      \<and> fmr_length r =
          (if len = - 1 then fst (snd (os_fstat sys (fst (os_open sys (path f))))) else len))
   \<and> (scheme f = ''file'' \<and> fst (os_open sys (path f)) \<noteq> - 1 \<and> len = - 1
        \<and> fst (os_fstat sys (fst (os_open sys (path f)))) = - 1 \<longrightarrow>
      snd (mapFile ps sys f so len)
        = Inl (AnnotatedException 400
                (''Couldn't stat mmap file '' @ toUtf8String f @ '': ''
                   @ snd (snd (os_fstat sys (fst (os_open sys (path f))))))))"
proof (intro conjI allI impI)
  fix calls r
  assume a: "mapFile ps sys f so len = (calls, Inr r)"
  note c = mapFile_success_cases [OF a]
  show "\<exists>base ml fd. fmr_handle r = MmapHandle base ml fd
          \<and> base = fst (os_mmap sys ml fd (mapOffset ps so))
          \<and> fmr_data r = base + so mod ps"
    using c by auto
  show "fmr_length r =
          (if len = - 1 then fst (snd (os_fstat sys (fst (os_open sys (path f))))) else len)"
    using c by auto
next
  assume "scheme f = ''file'' \<and> fst (os_open sys (path f)) \<noteq> - 1 \<and> len = - 1
        \<and> fst (os_fstat sys (fst (os_open sys (path f)))) = - 1"
  then show "snd (mapFile ps sys f so len)
        = Inl (AnnotatedException 400
                (''Couldn't stat mmap file '' @ toUtf8String f @ '': ''
                   @ snd (snd (os_fstat sys (fst (os_open sys (path f)))))))"
    by (auto simp: mapFile_def Let_def split: prod.splits)
qed

lemma mapFile_example:
  "mapFile 4096 example_os example_file 100 (- 1)
     = ([call_open ''/tmp/f'', call_fstat 3, call_mmap 8192 3 0],
        Inr \<lparr>fmr_data = 0x7f0000000064, fmr_length = 8192,
             fmr_handle = MmapHandle 0x7f0000000000 8192 3\<rparr>)"
  by (simp add: mapFile_def example_os_def example_file_def mapOffset_def mapLength_def MAP_FAILED_def)

theorem mapFile_result_witness:
  "mapFile 4096 example_os example_file 100 (- 1)
     = ([call_open ''/tmp/f'', call_fstat 3, call_mmap 8192 3 0],
        Inr \<lparr>fmr_data = 0x7f0000000064, fmr_length = 8192,
             fmr_handle = MmapHandle 0x7f0000000000 8192 3\<rparr>)
   \<and> (0x7f0000000064 :: addr) = 0x7f0000000000 + 100 mod 4096
   \<and> (8192 :: size_t) = fst (snd (os_fstat example_os (fst (os_open example_os (path example_file)))))
   \<and> snd (mapFile 4096 example_os_nostat example_file 100 (- 1))
     = Inl (AnnotatedException 400 ''Couldn't stat mmap file file:///tmp/f: Input/output error'')"
proof -
  have f: "scheme example_file = ''file'' \<and> fst (os_open example_os_nostat (path example_file)) \<noteq> - 1
     \<and> (- 1 :: ssize_t) = - 1
     \<and> fst (os_fstat example_os_nostat (fst (os_open example_os_nostat (path example_file)))) = - 1"
    by (simp add: example_file_def example_os_nostat_def)
  have e: "snd (mapFile 4096 example_os_nostat example_file 100 (- 1))
     = Inl (AnnotatedException 400 ''Couldn't stat mmap file file:///tmp/f: Input/output error'')"
    using f mapFile_result [of 4096 example_os_nostat example_file 100 "- 1"]
    by (simp add: example_file_def example_os_nostat_def)
  have l: "fmr_length \<lparr>fmr_data = 0x7f0000000064, fmr_length = 8192,
             fmr_handle = MmapHandle 0x7f0000000000 8192 3\<rparr>
           = fst (snd (os_fstat example_os (fst (os_open example_os (path example_file)))))"
    using mapFile_example mapFile_result [of 4096 example_os example_file 100 "- 1"]
    by simp
  show ?thesis using mapFile_example e l by simp
qed

text \<open>
  C2. Evaluation at \<open>startOffset = 100\<close>, \<open>length = 4096\<close>, \<open>page_size = 4096\<close>: the mapping
  requested from \<open>mmap\<close> is the window \<open>[0, 4096)\<close> of the file, while the region returned
  starts 100 bytes into it and is 4096 bytes long, so the window ends before the
  requested range \<open>[100, 4196)\<close> does.
\<close>

theorem mapFile_window_short:
  "mapFile 4096 example_os example_file 100 4096
     = ([call_open ''/tmp/f'', call_mmap 4096 3 0],
        Inr \<lparr>fmr_data = 0x7f0000000064, fmr_length = 4096,
             fmr_handle = MmapHandle 0x7f0000000000 4096 3\<rparr>)
   \<and> mapOffset 4096 100 = 0 \<and> mapLength 4096 100 4096 = 4096
   \<and> unat (mapOffset 4096 100) + unat (mapLength 4096 100 4096)
       < unat (100 :: size_t) + unat (4096 :: ssize_t)"
  by (simp add: mapFile_def example_os_def example_file_def mapOffset_def mapLength_def MAP_FAILED_def)

text \<open>
  C9, as stated, fails: for an \<open>http\<close> reference the exception carries status code 500,
  which is outside the client-input class 400 to 499.
\<close>

theorem mapFile_unsupported_counterexample:
  "mapFile 4096 example_os example_http 0 (- 1)
     = ([], Inl (AnnotatedException 500 ''only file:// entities can be memory mapped (for now)''))
   \<and> \<not> is_client_error (AnnotatedException 500 ''only file:// entities can be memory mapped (for now)'')"
  by (simp add: mapFile_def example_http_def is_client_error_def)

text \<open>
  C9, amended. For every file reference whose scheme is not \<open>file\<close>, \<open>mapFile\<close> makes no
  call to the system (nothing is opened, statted or mapped) and throws the exception
  with status code 500 and the message "only file:// entities can be memory mapped
  (for now)".
\<close>

theorem mapFile_unsupported:
  "scheme f \<noteq> ''file'' \<Longrightarrow>
     mapFile ps sys f so len
       = ([], Inl (AnnotatedException 500 ''only file:// entities can be memory mapped (for now)''))"
  by (simp add: mapFile_def)

theorem mapFile_unsupported_witness:
  "scheme example_http \<noteq> ''file''
   \<and> mapFile 4096 example_os example_http 7 (- 1)
       = ([], Inl (AnnotatedException 500 ''only file:// entities can be memory mapped (for now)''))"
proof -
  have h: "scheme example_http \<noteq> ''file''" by (simp add: example_http_def)
  show ?thesis using h mapFile_unsupported [OF h, of 4096 example_os 7 "- 1"] by simp
qed

subsection \<open>MemorySerializer::freeze\<close>

text \<open>
  C5. For every mutable region that \<open>MemorySerializer::allocateWritable\<close> returns,
  \<open>MemorySerializer::freeze\<close> makes no call (no allocation, no copy) and returns the
  frozen region with the same data pointer, length and handle; these are the block
  \<open>posix_memalign\<close> returned, the number of bytes asked for, and the handle owning
  that block.
\<close>

theorem freeze_zero_copy:
  "MemorySerializer_allocateWritable this lib bytesRequired alignment = (calls, Inr region) \<Longrightarrow>
     MemorySerializer_freeze region
       = ([], \<lparr>fmr_data = mmr_data region, fmr_length = mmr_length region,
               fmr_handle = mmr_handle region\<rparr>)
     \<and> mmr_data region = snd (posix_memalign lib (if alignment < 8 then 8 else alignment) bytesRequired)
     \<and> mmr_handle region = HeapHandle (mmr_data region)
     \<and> mmr_length region = bytesRequired"
  by (auto simp: MemorySerializer_allocateWritable_def MemorySerializer_freeze_def Let_def
           split: if_splits prod.splits)

theorem freeze_zero_copy_witness:
  "MemorySerializer_allocateWritable 1 example_libc 16 1
     = ([call_posix_memalign 8 16],
        Inr \<lparr>mmr_handle = HeapHandle 0x10000, mmr_data = 0x10000, mmr_length = 16, mmr_owner = 1\<rparr>)
   \<and> MemorySerializer_freeze
        \<lparr>mmr_handle = HeapHandle 0x10000, mmr_data = 0x10000, mmr_length = 16, mmr_owner = 1\<rparr>
     = ([], \<lparr>fmr_data = 0x10000, fmr_length = 16, fmr_handle = HeapHandle 0x10000\<rparr>)"
proof -
  have a: "MemorySerializer_allocateWritable 1 example_libc 16 1
     = ([call_posix_memalign 8 16],
        Inr \<lparr>mmr_handle = HeapHandle 0x10000, mmr_data = 0x10000, mmr_length = 16, mmr_owner = 1\<rparr>)"
    by (simp add: MemorySerializer_allocateWritable_def example_libc_def)
  show ?thesis using a freeze_zero_copy [OF a] by simp
qed

subsection \<open>StructuredReconstituter\<close>

lemma getRegionRecursive_chain_aux:
  "name \<noteq> [] \<Longrightarrow> getRegionRecursive this name = getRegionChain this name"
proof (induction this name rule: getRegionRecursive.induct)
  case (1 this)
  then show ?case by simp
next
  case (2 this h)
  then show ?case by (simp add: getRegionChain_def)
next
  case (3 this h v va)
  then show ?case
    by (auto simp: getRegionChain_def split: sum.splits option.splits)
qed

text \<open>
  C6. For every non-empty path \<open>getRegionRecursive\<close> equals the chain of \<open>getStructure\<close>
  calls on the leading segments followed by \<open>getRegion\<close> on the last one; for a path of
  three segments this is \<open>getStructure(a).getStructure(b).getRegion(c)\<close>; on the empty
  path the assertion fails.
\<close>

theorem getRegionRecursive_chain:
  "(name \<noteq> [] \<longrightarrow> getRegionRecursive this name = getRegionChain this name)
   \<and> getRegionRecursive this [a, b, c]
       = (case getStructure this a of
            Inl e \<Rightarrow> Inl e
          | Inr None \<Rightarrow> Inl NullPointerDereference
          | Inr (Some sa) \<Rightarrow>
              (case getStructure sa b of
                 Inl e \<Rightarrow> Inl e
               | Inr None \<Rightarrow> Inl NullPointerDereference
               | Inr (Some sb) \<Rightarrow> getRegion sb c))
   \<and> getRegionRecursive this [] = Inl (AssertionFailure ''!name.empty()'')"
  using getRegionRecursive_chain_aux [of name this]
  by (simp split: sum.splits option.splits)

theorem getRegionRecursive_chain_witness:
  "[''a'', ''b'', ''c''] \<noteq> ([] :: Path)
   \<and> getRegionRecursive example_root [''a'', ''b'', ''c''] = Inr example_region
   \<and> getRegionChain example_root [''a'', ''b'', ''c''] = Inr example_region"
proof -
  have c: "getRegionChain example_root [''a'', ''b'', ''c''] = Inr example_region"
    by (simp add: getRegionChain_def example_root_def example_node_a_def example_node_b_def)
  have n: "[''a'', ''b'', ''c''] \<noteq> ([] :: Path)" by simp
  have "getRegionRecursive example_root [''a'', ''b'', ''c'']
        = getRegionChain example_root [''a'', ''b'', ''c'']"
    using n getRegionRecursive_chain [of "[''a'', ''b'', ''c'']" example_root] by blast
  then show ?thesis using c n by simp
qed

text \<open>
  C10. On the empty path \<open>getStructureRecursive\<close> returns normally, and what it returns
  is the null pointer, not the node it was called on.
\<close>

theorem getStructureRecursive_empty:
  "getStructureRecursive this [] = Inr None
   \<and> getStructureRecursive this [] \<noteq> Inr (Some this)"
  by (simp add: getStructureRecursive_def)

subsection \<open>ReconstituteStreamHandler::seekoff\<close>






subsection \<open>getObjectHelper\<close>

text \<open>
  C8, as stated, fails: reading the malformed entry \<open>c\<close> with a descriptor that reports
  the label of its parsing context gives the error \<open>getObjectHelper\<close>, not \<open>c\<close>.
\<close>

theorem getObjectHelper_label_counterexample:
  "getObjectHelper example_memory example_node_b ''c'' label_description
     = Inl (Exception ''getObjectHelper'')
   \<and> getObjectHelper example_memory example_node_b ''c'' label_description
     \<noteq> Inl (Exception ''c'')"
  by (simp add: getObjectHelper_def example_node_b_def label_description_def region_bytes_def
        example_region_def example_memory_def upt_rec)

text \<open>
  C8, amended. For every entry name whose region is found, \<open>getObjectHelper\<close> gives the
  descriptor a parsing context made of the region's bytes and the fixed label
  \<open>getObjectHelper\<close>; its result, a parse error included, is therefore the same for
  any other entry of any node that holds the same bytes.
\<close>

theorem getObjectHelper_label:
  "getRegion this name = Inr entry \<Longrightarrow>
     getObjectHelper mem this name desc
       = parseJson desc \<lparr>ctx_text = region_bytes mem entry, ctx_filename = ''getObjectHelper''\<rparr>
     \<and> (\<forall>that name' entry'. getRegion that name' = Inr entry'
            \<and> region_bytes mem entry' = region_bytes mem entry
          \<longrightarrow> getObjectHelper mem that name' desc = getObjectHelper mem this name desc)"
  by (simp add: getObjectHelper_def)


theorem getObjectHelper_label_witness:
  "getRegion example_node_b ''c'' = Inr example_region
   \<and> region_bytes example_memory example_region = ''{!!!''
   \<and> getObjectHelper example_memory example_node_b ''c'' label_description
       = Inl (Exception ''getObjectHelper'')"
proof -
  have g: "getRegion example_node_b ''c'' = Inr example_region"
    by (simp add: example_node_b_def)
  have b: "region_bytes example_memory example_region = ''{!!!''"
    by (simp add: region_bytes_def example_region_def example_memory_def upt_rec)
  show ?thesis
    using g b getObjectHelper_label [OF g, of example_memory label_description]
    by (simp add: label_description_def)
qed


subsection \<open>StructuredSerializer::newObject\<close>

lemma newObject_appends_md:
  "StructuredSerializer_newObject this name val desc
     = Serializer (regions this) (entries this @ [(''md'', Serializer [printJson desc val] [])])"
  by (simp add: StructuredSerializer_newObject_def newEntry_def withEntry_def
        entry_allocateWritable_def entry_memcpy_def Let_def)

text \<open>
  C3. Evaluation at the name \<open>x\<close> on an empty node, with a descriptor that prints \<open>0\<close>:
  afterwards the node's only child is \<open>md\<close>, created directly on the node, and it holds
  the printed text. There is no entry \<open>x\<close>, so nothing is stored in an \<open>md\<close> child under
  \<open>x\<close>, and the name \<open>y\<close> gives the same node: the name is not used.
\<close>

theorem newObject_ignores_name:
  "StructuredSerializer_newObject empty_serializer ''x'' (0 :: nat) label_description
     = Serializer [] [(''md'', Serializer [''0''] [])]
   \<and> \<not> stored_under_name (Serializer [] [(''md'', Serializer [''0''] [])]) ''x'' ''0''
   \<and> entryAt (Serializer [] [(''md'', Serializer [''0''] [])]) [''x''] = None
   \<and> entryAt (Serializer [] [(''md'', Serializer [''0''] [])]) [''md'']
       = Some (Serializer [''0''] [])
   \<and> StructuredSerializer_newObject empty_serializer ''y'' (0 :: nat) label_description
     = StructuredSerializer_newObject empty_serializer ''x'' (0 :: nat) label_description"
  by (simp add: newObject_appends_md empty_serializer_def label_description_def
        stored_under_name_def)

end
